theory Spec2Isabelle
  imports Complex_Main
begin

section \<open>Python values\<close>

subsection \<open>Strings\<close>

text \<open>
  A Python \<^verbatim>\<open>str\<close> is a sequence of Unicode code points, and \<^verbatim>\<open>len\<close>, slicing and
  \<^verbatim>\<open>strip\<close> count code points. A string is therefore a list of code points, each a
  natural number; \<open>lit\<close> turns an ASCII literal of the source into such a list.
\<close>

type_synonym pystr = "nat list"

definition lit :: "string \<Rightarrow> pystr" where
  "lit s = map of_char s"

text \<open>
  \<^verbatim>\<open>str.isspace\<close> for one code point: the code points CPython lists as whitespace
  (tab to carriage return, the four separators 0x1C..0x1F, space, NEL, no-break space
  and the Unicode space separators).
\<close>

definition isspace :: "nat \<Rightarrow> bool" where
  "isspace c \<longleftrightarrow>
     (0x09 \<le> c \<and> c \<le> 0x0D) \<or> (0x1C \<le> c \<and> c \<le> 0x20) \<or> c = 0x85 \<or> c = 0xA0 \<or>
     c = 0x1680 \<or> (0x2000 \<le> c \<and> c \<le> 0x200A) \<or> c = 0x2028 \<or> c = 0x2029 \<or>
     c = 0x202F \<or> c = 0x205F \<or> c = 0x3000"

text \<open>\<^verbatim>\<open>s.strip()\<close>: leading and trailing whitespace removed.\<close>

definition strip :: "pystr \<Rightarrow> pystr" where
  "strip s = rev (dropWhile isspace (rev (dropWhile isspace s)))"

text \<open>\<^verbatim>\<open>sep.join(xs)\<close>.\<close>

fun join :: "pystr \<Rightarrow> pystr list \<Rightarrow> pystr" where
  "join sep [] = []"
| "join sep [x] = x"
| "join sep (x # y # ys) = x @ sep @ join sep (y # ys)"

text \<open>\<^verbatim>\<open>str(n)\<close> for an integer: its decimal digits, with a minus sign when negative.\<close>

fun dec_nat :: "nat \<Rightarrow> pystr" where
  "dec_nat n = (if n < 10 then [48 + n] else dec_nat (n div 10) @ [48 + n mod 10])"

declare dec_nat.simps [simp del]

definition str_int :: "int \<Rightarrow> pystr" where
  "str_int i = (if i < 0 then 45 # dec_nat (nat (- i)) else dec_nat (nat i))"

text \<open>
  Slices \<^verbatim>\<open>s[:k]\<close> and \<^verbatim>\<open>s[k:]\<close>: a negative bound counts from the end, and a bound
  beyond either end is clipped (slicing never raises).
\<close>

definition slice_bound :: "int \<Rightarrow> 'a list \<Rightarrow> nat" where
  "slice_bound k s =
     (let n = int (length s); j = (if k < 0 then n + k else k)
      in nat (max 0 (min j n)))"

definition slice_to :: "int \<Rightarrow> 'a list \<Rightarrow> 'a list" where
  "slice_to k s = take (slice_bound k s) s"

definition slice_from :: "int \<Rightarrow> 'a list \<Rightarrow> 'a list" where
  "slice_from k s = drop (slice_bound k s) s"

subsection \<open>Exceptions\<close>

text \<open>
  The exceptions the three modules raise or let through. \<open>ValueError\<close>,
  \<open>AuthenticationError\<close> and \<open>APIError\<close> carry their message; \<open>KeyError\<close> carries
  the missing key; \<open>OSError\<close> stands for every failure of the operating system on a
  path (a directory in place of the file, a refused permission, a path component that is
  not a directory); \<open>UnicodeError\<close> for text a codec cannot encode or bytes it cannot
  decode.
\<close>

datatype pyerror =
    ValueError pystr
  | AuthenticationError pystr
  | APIError pystr
  | KeyError pystr
  | TypeError
  | AttributeError
  | ZeroDivisionError
  | OverflowError
  | OSError
  | UnicodeError
  | EOFError

section \<open>Configuration store (config.py)\<close>

subsection \<open>The file system at the config path\<close>

text \<open>
  The store is the part of a POSIX file system that \<^verbatim>\<open>config.py\<close> touches, together with
  the codec of the locale, which \<^verbatim>\<open>read_text\<close> and \<^verbatim>\<open>write_text\<close> use since the source
  passes no encoding.

  The directory \<^verbatim>\<open>CONFIG_DIR\<close> is in one of five states, told apart by what \<^verbatim>\<open>stat\<close> on
  the config path and \<^verbatim>\<open>mkdir\<close> do:
  \<^item> \<open>NoDir\<close>: it does not exist and can be created;
  \<^item> \<open>DirBlocked\<close>: it does not exist and cannot be created (a component of the path is
    a regular file, or the parent refuses the permission);
  \<^item> \<open>DirOK\<close>: it exists and can be searched;
  \<^item> \<open>DirDenied\<close>: it exists and cannot be searched, so that every access to the
    config path is refused;
  \<^item> \<open>PathDenied\<close>: a directory above it cannot be searched, so that \<^verbatim>\<open>stat\<close> and
    \<^verbatim>\<open>mkdir\<close> are both refused.

  The config path itself holds nothing, a regular file, or something else (a
  directory, say), which exists but can be neither read nor written as a file. A regular
  file has its bytes, its permission bits, and what the operating system allows this
  process on it: reading, writing, and changing the permission bits (allowed to the
  owner and the superuser only).
\<close>

type_synonym bytes = "nat list"

datatype dir_state = NoDir | DirBlocked | DirOK | DirDenied | PathDenied

record file_state =
  content :: bytes
  mode :: nat
  can_read :: bool
  can_write :: bool
  can_chmod :: bool

datatype node = Missing | File file_state | Other

text \<open>
  \<open>dir_writable\<close>: entries can be created in and removed from the directory once it
  exists. \<open>create_mode\<close>: the permission bits of a newly created file (0o666 masked by
  the umask). \<open>encode\<close> and \<open>decode\<close>: the locale's codec, \<open>None\<close> where it raises.
\<close>

record store =
  config_dir :: dir_state
  dir_writable :: bool
  config_file :: node
  create_mode :: nat
  superuser :: bool
  encode :: "pystr \<Rightarrow> bytes option"
  decode :: "bytes \<Rightarrow> pystr option"

definition ENV_VAR_NAME :: pystr where
  "ENV_VAR_NAME = lit ''TOKENOPTIMIZER_API_KEY''"

text \<open>\<^verbatim>\<open>Path.home() / ".config" / "tokenoptimizer" / "config"\<close>, for a home directory
  written without a trailing slash.\<close>

definition CONFIG_FILE :: "pystr \<Rightarrow> pystr" where
  "CONFIG_FILE home = home @ lit ''/.config/tokenoptimizer/config''"

definition get_config_path :: "pystr \<Rightarrow> pystr" where
  "get_config_path home = CONFIG_FILE home"

definition mode_0600 :: nat where
  "mode_0600 = 6 * 8 * 8"

text \<open>The owner's read and write bits (0o400 and 0o200) of permission bits.\<close>

definition owner_read :: "nat \<Rightarrow> bool" where
  "owner_read m = odd (m div 256)"

definition owner_write :: "nat \<Rightarrow> bool" where
  "owner_write m = odd (m div 128)"

subsection \<open>The pathlib primitives\<close>

text \<open>
  What a function does is a value or an exception; a function that changes the store
  returns the store it leaves behind in both cases.
\<close>

datatype completion = Done | Raised pyerror

text \<open>
  Text mode on reading (universal newlines): after decoding, the line endings CR LF and
  CR become LF. On writing, text mode on POSIX leaves the text as it is.
\<close>

fun universal_newlines :: "pystr \<Rightarrow> pystr" where
  "universal_newlines [] = []"
| "universal_newlines [c] = [if c = 13 then 10 else c]"
| "universal_newlines (c # d # cs) =
     (if c = 13 \<and> d = 10 then 10 # universal_newlines cs
      else if c = 13 then 10 # universal_newlines (d # cs)
      else c # universal_newlines (d # cs))"

text \<open>
  \<^verbatim>\<open>CONFIG_FILE.exists()\<close> (Python 3.11): \<^verbatim>\<open>stat\<close> on the path; a missing entry or a
  component that is not a directory means \<^verbatim>\<open>False\<close>, every other error is raised again.
\<close>

definition path_exists :: "store \<Rightarrow> pyerror + bool" where
  "path_exists st =
     (case config_dir st of
        NoDir \<Rightarrow> Inr False
      | DirBlocked \<Rightarrow> Inr False
      | DirOK \<Rightarrow> Inr (config_file st \<noteq> Missing)
      | DirDenied \<Rightarrow> Inl OSError
      | PathDenied \<Rightarrow> Inl OSError)"

text \<open>\<^verbatim>\<open>CONFIG_FILE.read_text()\<close>: open for reading, decode all bytes, translate the
  line endings.\<close>

definition read_text :: "store \<Rightarrow> pyerror + pystr" where
  "read_text st =
     (case config_dir st of
        DirOK \<Rightarrow>
          (case config_file st of
             File f \<Rightarrow>
               if can_read f then
                 (case decode st (content f) of
                    None \<Rightarrow> Inl UnicodeError
                  | Some t \<Rightarrow> Inr (universal_newlines t))
               else Inl OSError
           | Missing \<Rightarrow> Inl OSError
           | Other \<Rightarrow> Inl OSError)
      | _ \<Rightarrow> Inl OSError)"

text \<open>
  \<^verbatim>\<open>CONFIG_FILE.write_text(t)\<close>: \<^verbatim>\<open>open(mode="w")\<close> creates the file or empties the one
  that is there (keeping its permission bits); only then is the text encoded and
  written, so that text the codec refuses leaves an empty file behind.
\<close>

definition write_text :: "pystr \<Rightarrow> store \<Rightarrow> completion \<times> store" where
  "write_text t st =
     (case config_dir st of
        DirOK \<Rightarrow>
          (case (case config_file st of
                   Missing \<Rightarrow>
                     if dir_writable st then
                       Some \<lparr>content = [], mode = create_mode st,
                             can_read = (superuser st \<or> owner_read (create_mode st)),
                             can_write = (superuser st \<or> owner_write (create_mode st)),
                             can_chmod = True\<rparr>
                     else None
                 | File f \<Rightarrow> if can_write f then Some (f\<lparr>content := []\<rparr>) else None
                 | Other \<Rightarrow> None)
           of
             None \<Rightarrow> (Raised OSError, st)
           | Some opened \<Rightarrow>
               (case encode st t of
                  None \<Rightarrow> (Raised UnicodeError, st\<lparr>config_file := File opened\<rparr>)
                | Some b \<Rightarrow> (Done, st\<lparr>config_file := File (opened\<lparr>content := b\<rparr>)\<rparr>)))
      | _ \<Rightarrow> (Raised OSError, st))"

text \<open>\<^verbatim>\<open>CONFIG_FILE.chmod(m)\<close>: afterwards the owner's bits decide what the owner may
  do; the superuser may do everything.\<close>

definition chmod :: "nat \<Rightarrow> store \<Rightarrow> completion \<times> store" where
  "chmod m st =
     (case config_dir st of
        DirOK \<Rightarrow>
          (case config_file st of
             File f \<Rightarrow>
               if can_chmod f then
                 (Done, st\<lparr>config_file :=
                          File (f\<lparr>mode := m,
                                  can_read := (superuser st \<or> owner_read m),
                                  can_write := (superuser st \<or> owner_write m)\<rparr>)\<rparr>)
               else (Raised OSError, st)
           | Missing \<Rightarrow> (Raised OSError, st)
           | Other \<Rightarrow> (Raised OSError, st))
      | _ \<Rightarrow> (Raised OSError, st))"

definition unlink :: "store \<Rightarrow> completion \<times> store" where
  "unlink st =
     (case config_dir st of
        DirOK \<Rightarrow>
          (case config_file st of
             File f \<Rightarrow>
               if dir_writable st then (Done, st\<lparr>config_file := Missing\<rparr>)
               else (Raised OSError, st)
           | Missing \<Rightarrow> (Raised OSError, st)
           | Other \<Rightarrow> (Raised OSError, st))
      | _ \<Rightarrow> (Raised OSError, st))"

subsection \<open>The functions of config.py\<close>

text \<open>\<^verbatim>\<open>CONFIG_DIR.mkdir(parents=True, exist_ok=True)\<close>: a directory that exists is left
  alone, a new one is empty.\<close>

definition ensure_config_dir :: "store \<Rightarrow> completion \<times> store" where
  "ensure_config_dir st =
     (case config_dir st of
        NoDir \<Rightarrow> (Done, st\<lparr>config_dir := DirOK, config_file := Missing\<rparr>)
      | DirBlocked \<Rightarrow> (Raised OSError, st)
      | DirOK \<Rightarrow> (Done, st)
      | DirDenied \<Rightarrow> (Done, st)
      | PathDenied \<Rightarrow> (Raised OSError, st))"

definition save_api_key :: "pystr \<Rightarrow> store \<Rightarrow> completion \<times> store" where
  "save_api_key api_key st =
     (case ensure_config_dir st of
        (Raised e, st1) \<Rightarrow> (Raised e, st1)
      | (Done, st1) \<Rightarrow>
          (case write_text (strip api_key) st1 of
             (Raised e, st2) \<Rightarrow> (Raised e, st2)
           | (Done, st2) \<Rightarrow> chmod mode_0600 st2))"

text \<open>
  \<open>load_api_key\<close> takes the value of \<^verbatim>\<open>os.environ.get(ENV_VAR_NAME)\<close>: \<open>None\<close> when
  the variable is unset. \<^verbatim>\<open>if env_key:\<close> holds for a string that is set and not empty.
\<close>

definition load_api_key :: "pystr option \<Rightarrow> store \<Rightarrow> pyerror + pystr option" where
  "load_api_key env_key st =
     (case env_key of
        Some (c # cs) \<Rightarrow> Inr (Some (strip (c # cs)))
      | _ \<Rightarrow>
          (case path_exists st of
             Inl e \<Rightarrow> Inl e
           | Inr True \<Rightarrow>
               (case read_text st of
                  Inl e \<Rightarrow> Inl e
                | Inr t \<Rightarrow> Inr (Some (strip t)))
           | Inr False \<Rightarrow> Inr None))"

definition delete_api_key :: "store \<Rightarrow> (pyerror + bool) \<times> store" where
  "delete_api_key st =
     (case path_exists st of
        Inl e \<Rightarrow> (Inl e, st)
      | Inr True \<Rightarrow>
          (case unlink st of
             (Raised e, st') \<Rightarrow> (Inl e, st')
           | (Done, st') \<Rightarrow> (Inr True, st'))
      | Inr False \<Rightarrow> (Inr False, st))"

text \<open>
  A codec for concrete runs: ASCII text, on which UTF-8 and the other ASCII-based
  codecs agree; everything else is refused.
\<close>

definition ascii_encode :: "pystr \<Rightarrow> bytes option" where
  "ascii_encode t = (if list_all (\<lambda>c. c < 128) t then Some t else None)"

definition ascii_decode :: "bytes \<Rightarrow> pystr option" where
  "ascii_decode b = (if list_all (\<lambda>c. c < 128) b then Some b else None)"

section \<open>API client (client.py)\<close>

subsection \<open>Floats and JSON-shaped values\<close>

text \<open>
  A Python \<^verbatim>\<open>float\<close> is a finite number, an infinity or NaN; comparisons are
  exact on the values, and every comparison with NaN is false.
\<close>

datatype pyfloat = Finite real | PosInf | NegInf | NaN

fun float_le :: "pyfloat \<Rightarrow> pyfloat \<Rightarrow> bool" where
  "float_le NaN y = False"
| "float_le x NaN = False"
| "float_le NegInf y = True"
| "float_le x PosInf = True"
| "float_le (Finite x) (Finite y) = (x \<le> y)"
| "float_le x y = False"

text \<open>
  The Python values that \<^verbatim>\<open>json.loads\<close> returns and \<^verbatim>\<open>json.dumps\<close> accepts, named by
  their JSON counterparts: \<^verbatim>\<open>None\<close> is \<open>JNull\<close>, a \<^verbatim>\<open>dict\<close> is \<open>JObject\<close> (looked up
  with \<open>map_of\<close>), a \<^verbatim>\<open>list\<close> is \<open>JArray\<close>.
\<close>

datatype json =
    JNull
  | JBool bool
  | JInt int
  | JFloat pyfloat
  | JString pystr
  | JArray "json list"
  | JObject "(pystr \<times> json) list"

text \<open>\<^verbatim>\<open>d.get(key, default)\<close>: only a dict has the method.\<close>

definition dict_get :: "json \<Rightarrow> pystr \<Rightarrow> json \<Rightarrow> pyerror + json" where
  "dict_get d key dflt =
     (case d of
        JObject kvs \<Rightarrow> Inr (case map_of kvs key of Some v \<Rightarrow> v | None \<Rightarrow> dflt)
      | _ \<Rightarrow> Inl AttributeError)"

text \<open>\<^verbatim>\<open>d[key]\<close> with a string key: \<^verbatim>\<open>KeyError\<close> on a dict without the key,
  \<^verbatim>\<open>TypeError\<close> on every other value.\<close>

definition subscript :: "json \<Rightarrow> pystr \<Rightarrow> pyerror + json" where
  "subscript d key =
     (case d of
        JObject kvs \<Rightarrow> (case map_of kvs key of Some v \<Rightarrow> Inr v | None \<Rightarrow> Inl (KeyError key))
      | _ \<Rightarrow> Inl TypeError)"

text \<open>
  \<^verbatim>\<open>str(v)\<close>, as an f-string field renders \<open>v\<close>: a string is itself; the rendering of
  every other value is Python's own and is taken as the parameter \<open>other\<close>.
\<close>

definition py_str :: "(json \<Rightarrow> pystr) \<Rightarrow> json \<Rightarrow> pystr" where
  "py_str other v = (case v of JString s \<Rightarrow> s | _ \<Rightarrow> other v)"

subsection \<open>Double precision arithmetic\<close>

text \<open>
  A finite Python float is an IEEE 754 binary64 number, here the real number it stands
  for (the sign of zero is not kept). Every operation returns the exact result rounded
  to the nearest double, ties to the even significand.

  \<open>binary_exponent x\<close> is, for positive \<open>x\<close>, the \<open>e\<close> with \<open>2^e \<le> x < 2^(e+1)\<close>, found
  through the bit length (\<^verbatim>\<open>int.bit_length\<close>) of the integer part (of the reciprocal below 1). Doubles with
  exponent \<open>e\<close> are the multiples of \<open>2^(e-52)\<close>; below \<open>2^(-1022)\<close> the spacing stays
  that of exponent -1022 (subnormal numbers). \<open>round_double\<close> does not bound the
  exponent from above: a result of magnitude \<open>2^1024\<close> or more is an overflow, which
  float arithmetic turns into an infinity (\<open>to_float\<close>) and integer division into
  \<^verbatim>\<open>OverflowError\<close> (\<open>truediv\<close>).
\<close>

function bit_length :: "int \<Rightarrow> nat" where
  "bit_length n = (if n \<le> 0 then 0 else Suc (bit_length (n div 2)))"
  by pat_completeness auto
termination
  by (relation "measure nat") auto

declare bit_length.simps [simp del]

definition pow2 :: "int \<Rightarrow> real" where
  "pow2 e = (if 0 \<le> e then 2 ^ nat e else 1 / 2 ^ nat (- e))"

definition binary_exponent :: "real \<Rightarrow> int" where
  "binary_exponent x =
     (if 1 \<le> x then int (bit_length \<lfloor>x\<rfloor>) - 1
      else - int (bit_length (\<lceil>1 / x\<rceil> - 1)))"

definition round_half_even :: "real \<Rightarrow> int" where
  "round_half_even x =
     (let f = \<lfloor>x\<rfloor>; d = x - of_int f
      in if d < 1 / 2 then f else if 1 / 2 < d then f + 1 else if even f then f else f + 1)"

definition round_double :: "real \<Rightarrow> real" where
  "round_double x =
     (if x = 0 then 0
      else let e = max (binary_exponent \<bar>x\<bar>) (- 1022); q = pow2 (e - 52)
           in sgn x * of_int (round_half_even (\<bar>x\<bar> / q)) * q)"

definition to_float :: "real \<Rightarrow> pyfloat" where
  "to_float x =
     (let v = round_double x
      in if 2 ^ 1024 \<le> v then PosInf else if v \<le> - (2 ^ 1024) then NegInf else Finite v)"

text \<open>\<^verbatim>\<open>x - y\<close> and \<^verbatim>\<open>x * y\<close> on floats, with the IEEE rules for infinities and NaN.\<close>

fun float_sub :: "pyfloat \<Rightarrow> pyfloat \<Rightarrow> pyfloat" where
  "float_sub (Finite x) (Finite y) = to_float (x - y)"
| "float_sub NaN y = NaN"
| "float_sub x NaN = NaN"
| "float_sub PosInf PosInf = NaN"
| "float_sub NegInf NegInf = NaN"
| "float_sub PosInf y = PosInf"
| "float_sub NegInf y = NegInf"
| "float_sub x PosInf = NegInf"
| "float_sub x NegInf = PosInf"

fun float_mul :: "pyfloat \<Rightarrow> pyfloat \<Rightarrow> pyfloat" where
  "float_mul (Finite x) (Finite y) = to_float (x * y)"
| "float_mul NaN y = NaN"
| "float_mul x NaN = NaN"
| "float_mul PosInf (Finite y) = (if y = 0 then NaN else if 0 < y then PosInf else NegInf)"
| "float_mul (Finite x) PosInf = (if x = 0 then NaN else if 0 < x then PosInf else NegInf)"
| "float_mul NegInf (Finite y) = (if y = 0 then NaN else if 0 < y then NegInf else PosInf)"
| "float_mul (Finite x) NegInf = (if x = 0 then NaN else if 0 < x then NegInf else PosInf)"
| "float_mul PosInf PosInf = PosInf"
| "float_mul NegInf NegInf = PosInf"
| "float_mul PosInf NegInf = NegInf"
| "float_mul NegInf PosInf = NegInf"

text \<open>
  \<^verbatim>\<open>a / b\<close> on integers: \<^verbatim>\<open>ZeroDivisionError\<close> for \<open>b = 0\<close>; otherwise the exact quotient
  rounded to a double, and \<^verbatim>\<open>OverflowError\<close> when that leaves the range of doubles.
\<close>

definition truediv :: "int \<Rightarrow> int \<Rightarrow> pyerror + pyfloat" where
  "truediv a b =
     (if b = 0 then Inl ZeroDivisionError
      else let v = round_double (real_of_int a / real_of_int b)
           in if 2 ^ 1024 \<le> \<bar>v\<bar> then Inl OverflowError else Inr (Finite v))"

subsection \<open>CompressionResult\<close>

text \<open>
  The dataclass (its field \<^verbatim>\<open>output\<close> is \<open>output_text\<close> here). Python does not enforce
  the annotations \<^verbatim>\<open>str\<close>, \<^verbatim>\<open>int\<close>, \<^verbatim>\<open>int\<close>, \<^verbatim>\<open>float\<close>, so the field types are
  parameters: \<open>compress\<close> fills the fields with whatever the response holds, and the two
  properties are defined where the token counts are integers.
\<close>

record ('a, 'b, 'c, 'd) CompressionResult =
  output_text :: 'a
  output_tokens :: 'b
  original_input_tokens :: 'c
  compression_time :: 'd

definition tokens_saved :: "('a, int, int, 'd) CompressionResult \<Rightarrow> int" where
  "tokens_saved r = original_input_tokens r - output_tokens r"

text \<open>\<^verbatim>\<open>(1 - self.output_tokens / self.original_input_tokens) * 100\<close>: the integers 1
  and 100 become the floats 1.0 and 100.0 before the float operations.\<close>

definition compression_ratio :: "('a, int, int, 'd) CompressionResult \<Rightarrow> pyerror + pyfloat" where
  "compression_ratio r =
     (if original_input_tokens r = 0 then Inr (Finite 0)
      else case truediv (output_tokens r) (original_input_tokens r) of
        Inl e \<Rightarrow> Inl e
      | Inr q \<Rightarrow> Inr (float_mul (float_sub (Finite 1) q) (Finite 100)))"

subsection \<open>The HTTP exchange\<close>

text \<open>
  What \<^verbatim>\<open>requests.post\<close> is called with, and what it gives back: one of the three
  exception classes the source catches, in the order of its \<^verbatim>\<open>except\<close> clauses, or a
  response. \<open>resp_json\<close> is the result of \<^verbatim>\<open>response.json()\<close>, \<open>None\<close> when it raises.
\<close>

record request =
  req_url :: pystr
  req_headers :: "(pystr \<times> pystr) list"
  req_json :: json
  req_timeout :: int

record response =
  status_code :: int
  resp_text :: pystr
  resp_json :: "json option"

datatype post_outcome =
    Timeout
  | ConnectionError
  | RequestException pystr
  | Response response

text \<open>
  \<^verbatim>\<open>Response.ok\<close> of the requests library: true unless \<^verbatim>\<open>raise_for_status()\<close> raises,
  which it does for a status code from 400 to 599.
\<close>

definition ok :: "response \<Rightarrow> bool" where
  "ok r = (\<not> (400 \<le> status_code r \<and> status_code r < 600))"

definition API_URL :: pystr where
  "API_URL = lit ''https://api.thetokencompany.com/v1/compress''"

definition DEFAULT_MODEL :: pystr where
  "DEFAULT_MODEL = lit ''bear-1''"

definition DEFAULT_TIMEOUT :: int where
  "DEFAULT_TIMEOUT = 60"

record TokenOptimizerClient =
  client_api_key :: pystr
  client_timeout :: int

subsection \<open>compress\<close>

text \<open>The request headers and the \<^verbatim>\<open>payload\<close> dict; an argument that is \<^verbatim>\<open>None\<close> stays in
  the dict as \<^verbatim>\<open>None\<close>.\<close>

definition opt_int :: "int option \<Rightarrow> json" where
  "opt_int v = (case v of None \<Rightarrow> JNull | Some n \<Rightarrow> JInt n)"

definition headers :: "TokenOptimizerClient \<Rightarrow> (pystr \<times> pystr) list" where
  "headers self =
     [(lit ''Content-Type'', lit ''application/json''),
      (lit ''Authorization'', lit ''Bearer '' @ client_api_key self)]"

definition payload :: "pystr \<Rightarrow> pystr \<Rightarrow> pyfloat \<Rightarrow> int option \<Rightarrow> int option \<Rightarrow> json" where
  "payload model txt aggr max_output min_output =
     JObject
       [(lit ''model'', JString model),
        (lit ''input'', JString txt),
        (lit ''compression_settings'',
         JObject
           [(lit ''aggressiveness'', JFloat aggr),
            (lit ''max_output_tokens'', opt_int max_output),
            (lit ''min_output_tokens'', opt_int min_output)])]"

text \<open>
  The message of a response that is not ok: \<^verbatim>\<open>.get\<close> on a value that is not a dict
  raises, and the \<^verbatim>\<open>except Exception\<close> clause falls back to the body text, as it does
  when \<^verbatim>\<open>response.json()\<close> raises.
\<close>

definition error_msg :: "response \<Rightarrow> json" where
  "error_msg r =
     (case resp_json r of
        None \<Rightarrow> JString (resp_text r)
      | Some error_data \<Rightarrow>
          (case dict_get error_data (lit ''error'') (JObject []) of
             Inl e \<Rightarrow> JString (resp_text r)
           | Inr err \<Rightarrow>
               (case dict_get err (lit ''message'') (JString (resp_text r)) of
                  Inl e \<Rightarrow> JString (resp_text r)
                | Inr m \<Rightarrow> m)))"

text \<open>The success branch: the body as JSON, then the four fields by subscript, in the
  order of the constructor call.\<close>

definition parse_result ::
  "response \<Rightarrow> pyerror + (json, json, json, json) CompressionResult" where
  "parse_result r =
     (case resp_json r of
        None \<Rightarrow> Inl (APIError (lit ''Invalid JSON response from API''))
      | Some data \<Rightarrow>
          (case subscript data (lit ''output'') of Inl e \<Rightarrow> Inl e | Inr a \<Rightarrow>
          (case subscript data (lit ''output_tokens'') of Inl e \<Rightarrow> Inl e | Inr b \<Rightarrow>
          (case subscript data (lit ''original_input_tokens'') of Inl e \<Rightarrow> Inl e | Inr c \<Rightarrow>
          (case subscript data (lit ''compression_time'') of Inl e \<Rightarrow> Inl e | Inr d \<Rightarrow>
             Inr \<lparr>output_text = a, output_tokens = b, original_input_tokens = c,
                  compression_time = d\<rparr>)))))"

text \<open>Lines 118 to 142 of \<^verbatim>\<open>compress\<close>: what is done with a response.\<close>

definition on_response ::
  "(json \<Rightarrow> pystr) \<Rightarrow> response \<Rightarrow> pyerror + (json, json, json, json) CompressionResult" where
  "on_response other r =
     (if status_code r = 401 then Inl (AuthenticationError (lit ''Invalid API key''))
      else if status_code r = 403 then
        Inl (AuthenticationError (lit ''API key does not have access to this resource''))
      else if \<not> ok r then
        Inl (APIError (lit ''API error ('' @ str_int (status_code r) @ lit ''): ''
                       @ py_str other (error_msg r)))
      else parse_result r)"

text \<open>
  \<open>compress\<close> returns its result or exception together with the requests it has sent.
  \<open>send\<close> is the network: the outcome of \<^verbatim>\<open>requests.post\<close> for a request.
\<close>

definition compress ::
  "(json \<Rightarrow> pystr) \<Rightarrow> (request \<Rightarrow> post_outcome) \<Rightarrow> TokenOptimizerClient \<Rightarrow> pystr \<Rightarrow> pyfloat \<Rightarrow>
   int option \<Rightarrow> int option \<Rightarrow> pystr \<Rightarrow>
   (pyerror + (json, json, json, json) CompressionResult) \<times> request list" where
  "compress other send self txt aggr max_output min_output model =
     (if \<not> (float_le (Finite 0) aggr \<and> float_le aggr (Finite 1)) then
        (Inl (ValueError (lit ''Aggressiveness must be between 0.0 and 1.0'')), [])
      else
        let req = \<lparr>req_url = API_URL, req_headers = headers self,
                   req_json = payload model txt aggr max_output min_output,
                   req_timeout = client_timeout self\<rparr>
        in (case send req of
              Timeout \<Rightarrow> Inl (APIError (lit ''Request timed out''))
            | ConnectionError \<Rightarrow> Inl (APIError (lit ''Failed to connect to API''))
            | RequestException e \<Rightarrow> Inl (APIError (lit ''Request failed: '' @ e))
            | Response r \<Rightarrow> on_response other r,
            [req]))"

section \<open>Command line (cli.py)\<close>

subsection \<open>The process and its surroundings\<close>

text \<open>
  \<open>world\<close> is everything an invocation reads, each as the outcome of the call that
  reads it: the value of the environment variable, the home directory, the config
  store, what \<^verbatim>\<open>input()\<close> and \<^verbatim>\<open>sys.stdin.read()\<close> return or raise, whether standard
  input is a terminal, what \<^verbatim>\<open>open(path).read()\<close> does for a path, the network, the text
  that the encoder of standard output accepts (it is strict; that of standard error
  replaces what it cannot encode and accepts everything), and three renderings that
  belong to Python or argparse: \<^verbatim>\<open>str\<close> of a value that is not a string,
  \<^verbatim>\<open>format(x, ".nf")\<close> of a float, and the help text of the auth parser.
\<close>

datatype file_read = FileNotFound | IOFailure pystr | ReadCrash pyerror | FileText pystr

record world =
  environ_key :: "pystr option"
  home :: pystr
  files :: store
  input_line :: "pyerror + pystr"
  stdin_isatty :: bool
  stdin_read :: "pyerror + pystr"
  open_read :: "pystr \<Rightarrow> file_read"
  post :: "request \<Rightarrow> post_outcome"
  stdout_accepts :: "pystr \<Rightarrow> bool"
  str_other :: "json \<Rightarrow> pystr"
  format_f :: "nat \<Rightarrow> pyfloat \<Rightarrow> pystr"
  auth_help :: pystr

text \<open>
  What argparse hands to the two command functions (\<^verbatim>\<open>args.file\<close> is \<open>file_path\<close>).
  \<open>Auth None\<close> is \<^verbatim>\<open>tokenoptimizer auth\<close> without an action. Command lines that
  argparse itself rejects or answers (\<^verbatim>\<open>--help\<close>, \<^verbatim>\<open>--version\<close>) are not invocations of
  \<open>main\<close> here.
\<close>

record optimize_args =
  prompt :: "pystr list"
  file_path :: "pystr option"
  aggressiveness :: pyfloat
  light :: bool
  moderate :: bool
  aggressive :: bool
  max_tokens :: "int option"
  min_tokens :: "int option"
  quiet :: bool
  stats_only :: bool
  timeout :: int

datatype auth_action = AuthSet "pystr option" | AuthShow | AuthDelete | AuthPath

datatype command = Auth "auth_action option" | Optimize optimize_args

text \<open>
  A process is what has been written to the two streams and the state of the config
  store. It ends by returning from \<open>main\<close> (the value goes to \<^verbatim>\<open>sys.exit\<close>), by
  \<^verbatim>\<open>sys.exit\<close> inside \<open>error\<close>, or by an exception nobody catches. \<open>Untyped\<close> marks a
  response whose four fields are present but not of the annotated types: what the
  output stage does with such values is not modelled.
\<close>

record process =
  stdout :: pystr
  stderr :: pystr
  disk :: store

datatype exit_status = Returned int | SysExit int | Uncaught pyerror | Untyped

text \<open>\<^verbatim>\<open>print(s)\<close>: the line is written whole or, when the encoder refuses it, not at
  all.\<close>

definition print_stdout :: "world \<Rightarrow> pystr \<Rightarrow> process \<Rightarrow> pyerror + process" where
  "print_stdout w s p =
     (if stdout_accepts w s then Inr (p\<lparr>stdout := stdout p @ s @ [10]\<rparr>)
      else Inl UnicodeError)"

text \<open>Several \<^verbatim>\<open>print\<close> calls in a row: the first that raises ends the run.\<close>

fun print_lines :: "world \<Rightarrow> pystr list \<Rightarrow> process \<Rightarrow> process \<times> completion" where
  "print_lines w [] p = (p, Done)"
| "print_lines w (s # ss) p =
     (case print_stdout w s p of
        Inl e \<Rightarrow> (p, Raised e)
      | Inr p' \<Rightarrow> print_lines w ss p')"

text \<open>What a command function that ends with \<^verbatim>\<open>return code\<close> leaves behind.\<close>

definition returning :: "int \<Rightarrow> process \<times> completion \<Rightarrow> process \<times> exit_status" where
  "returning code r =
     (case r of (p, Done) \<Rightarrow> (p, Returned code) | (p, Raised e) \<Rightarrow> (p, Uncaught e))"

definition print_stderr :: "pystr \<Rightarrow> process \<Rightarrow> process" where
  "print_stderr s p = p\<lparr>stderr := stderr p @ s @ [10]\<rparr>"

text \<open>\<^verbatim>\<open>print(s, end="", file=sys.stderr)\<close>.\<close>

definition write_stderr :: "pystr \<Rightarrow> process \<Rightarrow> process" where
  "write_stderr s p = p\<lparr>stderr := stderr p @ s\<rparr>"

text \<open>\<^verbatim>\<open>s * n\<close> on a string.\<close>

definition str_times :: "pystr \<Rightarrow> int \<Rightarrow> pystr" where
  "str_times s n = concat (replicate (nat n) s)"

subsection \<open>error, print\_stats\<close>

text \<open>The float literals of \<^verbatim>\<open>PRESETS\<close> are the doubles nearest to them.\<close>

definition PRESETS :: "(pystr \<times> pyfloat) list" where
  "PRESETS = [(lit ''light'', to_float 0.2), (lit ''moderate'', to_float 0.5),
              (lit ''aggressive'', to_float 0.8)]"

definition preset :: "pystr \<Rightarrow> pyerror + pyfloat" where
  "preset name = (case map_of PRESETS name of Some v \<Rightarrow> Inr v | None \<Rightarrow> Inl (KeyError name))"

definition error :: "pystr \<Rightarrow> int \<Rightarrow> process \<Rightarrow> process \<times> exit_status" where
  "error message code p = (print_stderr (lit ''error: '' @ message) p, SysExit code)"

definition print_stats ::
  "world \<Rightarrow> (pystr, int, int, pyfloat) CompressionResult \<Rightarrow> bool \<Rightarrow> process \<Rightarrow> pyerror + process" where
  "print_stats w result q p =
     (if q then Inr p
      else case compression_ratio result of
        Inl e \<Rightarrow> Inl e
      | Inr ratio \<Rightarrow>
          Inr (print_stderr
                 (lit ''['' @ str_int (original_input_tokens result) @ lit '' -> ''
                  @ str_int (output_tokens result) @ lit '' tokens (''
                  @ str_int (tokens_saved result) @ lit '' saved, ''
                  @ format_f w 1 ratio @ lit ''% reduction) in ''
                  @ format_f w 2 (compression_time result) @ lit ''s]'') p))"

subsection \<open>cmd\_auth\<close>

text \<open>Lines 69 to 72: the masked display of a key.\<close>

definition mask :: "pystr \<Rightarrow> pystr" where
  "mask k =
     (if length k > 8 then
        slice_to 4 k @ str_times (lit ''*'') (int (length k) - 8) @ slice_from (- 4) k
      else str_times (lit ''*'') (int (length k)))"

definition cmd_auth :: "world \<Rightarrow> auth_action \<Rightarrow> process \<Rightarrow> process \<times> exit_status" where
  "cmd_auth w action p =
     (case action of
        AuthSet key \<Rightarrow>
          (case (case key of
                   Some (c # cs) \<Rightarrow> Inr (p, c # cs)
                 | _ \<Rightarrow>
                     (case input_line w of
                        Inl e \<Rightarrow> Inl (write_stderr (lit ''Enter your API key: '') p, Uncaught e)
                      | Inr line \<Rightarrow>
                          Inr (write_stderr (lit ''Enter your API key: '') p, strip line)))
           of
             Inl ended \<Rightarrow> ended
           | Inr (p1, k) \<Rightarrow>
               if k = [] then error (lit ''API key cannot be empty'') 1 p1
               else
                 (case save_api_key k (disk p1) of
                    (Raised e, st) \<Rightarrow> (p1\<lparr>disk := st\<rparr>, Uncaught e)
                  | (Done, st) \<Rightarrow>
                      (print_stderr (lit ''API key saved to '' @ get_config_path (home w))
                         (p1\<lparr>disk := st\<rparr>),
                       Returned 0)))
      | AuthShow \<Rightarrow>
          (case load_api_key (environ_key w) (disk p) of
             Inl e \<Rightarrow> (p, Uncaught e)
           | Inr (Some (c # cs)) \<Rightarrow>
               returning 0
                 (print_lines w
                    [lit ''API key: '' @ mask (c # cs),
                     lit ''Source: ''
                     @ (if environ_key w \<noteq> None then lit ''environment''
                        else lit ''config file'')] p)
           | Inr _ \<Rightarrow>
               returning 0
                 (print_lines w
                    [lit ''No API key configured'',
                     lit ''Set one with: tokenoptimizer auth set'',
                     lit ''Or set '' @ ENV_VAR_NAME @ lit '' environment variable''] p))
      | AuthDelete \<Rightarrow>
          (case delete_api_key (disk p) of
             (Inl e, st) \<Rightarrow> (p\<lparr>disk := st\<rparr>, Uncaught e)
           | (Inr deleted, st) \<Rightarrow>
               (print_stderr
                  (if deleted then lit ''API key deleted'' else lit ''No stored API key found'')
                  (p\<lparr>disk := st\<rparr>),
                Returned 0))
      | AuthPath \<Rightarrow> returning 0 (print_lines w [get_config_path (home w)] p))"

subsection \<open>cmd\_optimize\<close>

text \<open>Lines 104 to 117: where the input text comes from. \<open>Inl\<close> is a process that
  has ended.\<close>

definition input_text ::
  "world \<Rightarrow> optimize_args \<Rightarrow> process \<Rightarrow> (process \<times> exit_status) + pystr" where
  "input_text w args p =
     (if prompt args \<noteq> [] then Inr (join (lit '' '') (prompt args))
      else case file_path args of
        Some (c # cs) \<Rightarrow>
          (case open_read w (c # cs) of
             FileNotFound \<Rightarrow> Inl (error (lit ''File not found: '' @ (c # cs)) 1 p)
           | IOFailure e \<Rightarrow> Inl (error (lit ''Failed to read file: '' @ e) 1 p)
           | ReadCrash e \<Rightarrow> Inl (p, Uncaught e)
           | FileText t \<Rightarrow> Inr t)
      | _ \<Rightarrow>
          if \<not> stdin_isatty w then
            (case stdin_read w of Inl e \<Rightarrow> Inl (p, Uncaught e) | Inr t \<Rightarrow> Inr t)
          else Inl (error (lit ''No input provided. Use --prompt, --file, or pipe via stdin'') 1 p))"

text \<open>Lines 123 to 129.\<close>

definition resolve_aggressiveness :: "optimize_args \<Rightarrow> pyerror + pyfloat" where
  "resolve_aggressiveness args =
     (if light args then preset (lit ''light'')
      else if moderate args then preset (lit ''moderate'')
      else if aggressive args then preset (lit ''aggressive'')
      else Inr (aggressiveness args))"

text \<open>The result with the types its annotations promise, when the response has
  them.\<close>

definition annotated ::
  "(json, json, json, json) CompressionResult \<Rightarrow>
   (pystr, int, int, pyfloat) CompressionResult option" where
  "annotated r =
     (case (output_text r, output_tokens r, original_input_tokens r) of
        (JString s, JInt a, JInt b) \<Rightarrow>
          (case compression_time r of
             JFloat t \<Rightarrow>
               Some \<lparr>output_text = s, output_tokens = a, original_input_tokens = b,
                     compression_time = t\<rparr>
           | _ \<Rightarrow> None)
      | _ \<Rightarrow> None)"

text \<open>Lines 149 to 159: the output stage.\<close>

definition print_result ::
  "world \<Rightarrow> optimize_args \<Rightarrow> (pystr, int, int, pyfloat) CompressionResult \<Rightarrow> process \<Rightarrow>
   process \<times> exit_status" where
  "print_result w args result p =
     (if stats_only args then
        (case print_lines w
                [lit ''Original tokens: '' @ str_int (original_input_tokens result),
                 lit ''Output tokens: '' @ str_int (output_tokens result),
                 lit ''Tokens saved: '' @ str_int (tokens_saved result)] p of
           (p3, Raised e) \<Rightarrow> (p3, Uncaught e)
         | (p3, Done) \<Rightarrow>
             (case compression_ratio result of
                Inl e \<Rightarrow> (p3, Uncaught e)
              | Inr ratio \<Rightarrow>
                  returning 0
                    (print_lines w
                       [lit ''Compression ratio: '' @ format_f w 1 ratio @ lit ''%'',
                        lit ''Compression time: '' @ format_f w 2 (compression_time result)
                        @ lit ''s''] p3)))
      else
        (case print_stats w result (quiet args) p of
           Inl e \<Rightarrow> (p, Uncaught e)
         | Inr p1 \<Rightarrow> returning 0 (print_lines w [output_text result] p1)))"

definition cmd_optimize :: "world \<Rightarrow> optimize_args \<Rightarrow> process \<Rightarrow> process \<times> exit_status" where
  "cmd_optimize w args p =
     (case load_api_key (environ_key w) (disk p) of
        Inl e \<Rightarrow> (p, Uncaught e)
      | Inr (Some (c # cs)) \<Rightarrow>
          (case input_text w args p of
             Inl ended \<Rightarrow> ended
           | Inr txt \<Rightarrow>
               if strip txt = [] then error (lit ''Input text is empty'') 1 p
               else
                 (case resolve_aggressiveness args of
                    Inl e \<Rightarrow> (p, Uncaught e)
                  | Inr aggr \<Rightarrow>
                      (case fst (compress (str_other w) (post w)
                                   \<lparr>client_api_key = c # cs, client_timeout = timeout args\<rparr>
                                   txt aggr (max_tokens args) (min_tokens args) DEFAULT_MODEL) of
                         Inl (AuthenticationError e) \<Rightarrow>
                           error (lit ''Authentication failed: '' @ e) 1 p
                       | Inl (APIError e) \<Rightarrow> error e 1 p
                       | Inl (ValueError e) \<Rightarrow> error e 1 p
                       | Inl e \<Rightarrow> (p, Uncaught e)
                       | Inr result \<Rightarrow>
                           (case annotated result of
                              None \<Rightarrow> (p, Untyped)
                            | Some r \<Rightarrow> print_result w args r p))))
      | Inr _ \<Rightarrow>
          error (lit ''No API key configured. Run '' @ [39] @ lit ''tokenoptimizer auth set''
                 @ [39] @ lit '' or set '' @ ENV_VAR_NAME) 1 p)"

subsection \<open>main\<close>

text \<open>\<^verbatim>\<open>parser.print_help()\<close> writes the help text to standard output.\<close>

definition main :: "world \<Rightarrow> command \<Rightarrow> process \<times> exit_status" where
  "main w cmd =
     (let p = \<lparr>stdout = [], stderr = [], disk = files w\<rparr>
      in case cmd of
           Auth None \<Rightarrow>
             (if stdout_accepts w (auth_help w)
              then (p\<lparr>stdout := stdout p @ auth_help w\<rparr>, Returned 1)
              else (p, Uncaught UnicodeError))
         | Auth (Some action) \<Rightarrow> cmd_auth w action p
         | Optimize args \<Rightarrow> cmd_optimize w args p)"

subsection \<open>Defaults and an example world\<close>

text \<open>The values argparse gives the options of the optimize parser when none is
  passed.\<close>

definition default_args :: optimize_args where
  "default_args =
     \<lparr>prompt = [], file_path = None, aggressiveness = Finite 0.5, light = False,
      moderate = False, aggressive = False, max_tokens = None, min_tokens = None,
      quiet = False, stats_only = False, timeout = 60\<rparr>"

text \<open>
  A world for concrete runs: the variable unset, no config directory yet, an ordinary
  user with umask 022 in an ASCII locale, a terminal at which nothing is typed, no
  readable file and no network.
\<close>

definition example_store :: store where
  "example_store =
     \<lparr>config_dir = NoDir, dir_writable = True, config_file = Missing, create_mode = 420,
      superuser = False, encode = ascii_encode, decode = ascii_decode\<rparr>"

definition example_world :: world where
  "example_world =
     \<lparr>environ_key = None, home = lit ''/home/u'',
      files = example_store,
      input_line = Inl EOFError, stdin_isatty = True, stdin_read = Inr [],
      open_read = (\<lambda>path. FileNotFound),
      post = (\<lambda>req. ConnectionError),
      stdout_accepts = list_all (\<lambda>c. c < 128),
      str_other = (\<lambda>v. []),
      format_f = (\<lambda>n x. []),
      auth_help = lit ''usage: tokenoptimizer auth [-h] action ...'' @ [10]\<rparr>"

section \<open>The specification's wording, for comparison\<close>

text \<open>
  The specification names the message of an API error as "the JSON response body field
  error.message if the body parses as JSON and that field is present". \<open>member\<close> is
  the field of an object, and \<open>spec_error_message\<close> that field of the body, absent as
  soon as one step of the path is.
\<close>

definition member :: "json \<Rightarrow> pystr \<Rightarrow> json option" where
  "member v key = (case v of JObject kvs \<Rightarrow> map_of kvs key | _ \<Rightarrow> None)"

definition spec_error_message :: "response \<Rightarrow> json option" where
  "spec_error_message r =
     (case resp_json r of
        None \<Rightarrow> None
      | Some b \<Rightarrow>
          (case member b (lit ''error'') of
             None \<Rightarrow> None
           | Some e \<Rightarrow> member e (lit ''message'')))"

section \<open>Properties\<close>

subsection \<open>Helper facts\<close>

lemma lit_simps: "lit [] = []" "lit (c # cs) = of_char c # lit cs"
  by (simp_all add: lit_def)

lemma float_le_unit:
  "(float_le (Finite 0) a \<and> float_le a (Finite 1)) = (\<exists>x. a = Finite x \<and> 0 \<le> x \<and> x \<le> 1)"
  by (cases a) auto

lemma parse_result_not_ValueError: "parse_result r \<noteq> Inl (ValueError m)"
  by (auto simp: parse_result_def subscript_def split: option.splits json.splits sum.splits)

lemma on_response_not_ValueError: "on_response other r \<noteq> Inl (ValueError m)"
  by (simp add: on_response_def parse_result_not_ValueError)


lemma strip_all_space: "\<forall>c\<in>set s. isspace c \<Longrightarrow> strip s = []"
  by (auto simp: strip_def dest: set_dropWhileD)

lemma last_dropWhile: "dropWhile P xs \<noteq> [] \<Longrightarrow> last (dropWhile P xs) = last xs"
  by (induction xs) (auto split: if_splits)

lemma strip_idem: "strip (strip s) = strip s"
proof -
  define a where "a = dropWhile isspace s"
  define b where "b = dropWhile isspace (rev a)"
  have b: "dropWhile isspace b = b" unfolding b_def by simp
  have "dropWhile isspace (rev b) = rev b"
  proof (cases "b = []")
    case True then show ?thesis by simp
  next
    case False
    then have a: "a \<noteq> []" unfolding b_def by auto
    have "hd (rev b) = last b" using False by (simp add: hd_rev)
    also have "\<dots> = last (rev a)" using False unfolding b_def by (rule last_dropWhile)
    also have "\<dots> = hd a" using a by (simp add: last_rev)
    finally have "hd (rev b) = hd a" .
    moreover have "\<not> isspace (hd a)" using a unfolding a_def by (rule hd_dropWhile)
    ultimately show ?thesis by (simp add: dropWhile_eq_self_iff)
  qed
  then show ?thesis by (simp add: strip_def a_def[symmetric] b_def[symmetric] b)
qed

lemma universal_newlines_no_cr: "13 \<notin> set s \<Longrightarrow> universal_newlines s = s"
  by (induction s rule: universal_newlines.induct) auto

lemma error_eq:
  "error m c p = (p\<lparr>stderr := stderr p @ lit ''error: '' @ m @ [10]\<rparr>, SysExit c)"
  by (simp add: error_def print_stderr_def)


lemma str_times_star: "0 \<le> n \<Longrightarrow> str_times (lit ''*'') n = replicate (nat n) 42"
  by (induction "nat n" arbitrary: n)
     (auto simp: str_times_def lit_simps replicate_append_same)

lemma mask_eq:
  "mask k =
     (if 8 < length k then take 4 k @ replicate (length k - 8) 42 @ drop (length k - 4) k
      else replicate (length k) 42)"
  by (simp add: mask_def slice_to_def slice_from_def slice_bound_def Let_def str_times_star
                nat_diff_distrib' min_def max_def)

subsection \<open>CompressionResult\<close>

text \<open>Roundings that the examples below go through, each computed by the definition.\<close>

lemma round_double_3_5: "round_double (3 / 5) = 5404319552844595 / 9007199254740992"
  by code_simp

lemma round_double_2_5:
  "round_double (3602879701896397 / 9007199254740992) = 3602879701896397 / 9007199254740992"
  by code_simp

lemma round_double_40: "round_double (90071992547409925 / 2251799813685248) = 40"
  by code_simp

lemma round_double_9_10: "round_double (9 / 10) = 8106479329266893 / 9007199254740992"
  by code_simp

lemma round_double_1_10:
  "round_double (900719925474099 / 9007199254740992) = 900719925474099 / 9007199254740992"
  by code_simp

lemma round_double_10:
  "round_double (22517998136852475 / 2251799813685248) = 5629499534213119 / 562949953421312"
  by code_simp

lemma bit_length_eq: "2 ^ k \<le> n \<Longrightarrow> n < 2 ^ Suc k \<Longrightarrow> bit_length n = Suc k"
proof (induction k arbitrary: n)
  case 0
  then have "n = 1" by simp
  then show ?case by (simp add: bit_length.simps)
next
  case (Suc k)
  have "2 ^ k \<le> n div 2" using Suc.prems(1) by simp
  moreover have "n div 2 < 2 ^ Suc k" using Suc.prems(2) by simp
  ultimately have "bit_length (n div 2) = Suc k" by (rule Suc.IH)
  moreover have "0 < n"
  proof -
    have "(0::int) < 2 ^ Suc k" by simp
    then show ?thesis using Suc.prems(1) by linarith
  qed
  ultimately show ?case by (subst bit_length.simps) simp
qed

lemma bit_length_309: "bit_length (10 ^ 309) = 1027"
proof -
  have "bit_length (10 ^ 309) = Suc 1026"
    by (rule bit_length_eq) simp_all
  then show ?thesis by simp
qed

lemma round_double_huge: "2 ^ 1024 \<le> \<bar>round_double (10 ^ 309)\<bar>"
  by (simp add: round_double_def binary_exponent_def bit_length_309 [simplified] pow2_def
                round_half_even_def Let_def)

text \<open>
  C4, as the code has it. For every CompressionResult with integer token counts,
  \<open>tokens_saved\<close> is the original input token count minus the output token count.
  \<open>compression_ratio\<close> is 0.0 when the original count is 0, and it never fails with a
  division by zero; otherwise it is (1 - output / original) * 100 computed in double
  precision, the quotient, the difference and the product each rounded to the nearest
  double, and it raises \<^verbatim>\<open>OverflowError\<close> when the rounded quotient is outside the range
  of doubles. With 100 original and 60 output tokens the ratio is exactly 40.0 and 40
  tokens are saved.
\<close>

theorem compression_result_derived:
  fixes r :: "('a, int, int, 'd) CompressionResult"
  shows "tokens_saved r = original_input_tokens r - output_tokens r
   \<and> compression_ratio r =
       (if original_input_tokens r = 0 then Inr (Finite 0)
        else if 2 ^ 1024 \<le> \<bar>round_double (real_of_int (output_tokens r)
                                            / real_of_int (original_input_tokens r))\<bar>
        then Inl OverflowError
        else Inr (float_mul
                    (float_sub (Finite 1)
                       (Finite (round_double (real_of_int (output_tokens r)
                                              / real_of_int (original_input_tokens r)))))
                    (Finite 100)))
   \<and> compression_ratio r \<noteq> Inl ZeroDivisionError
   \<and> tokens_saved \<lparr>output_text = t, output_tokens = 60, original_input_tokens = 100,
                    compression_time = d\<rparr> = 40
   \<and> compression_ratio \<lparr>output_text = t, output_tokens = 60, original_input_tokens = 100,
                    compression_time = d\<rparr> = Inr (Finite 40)"
  by (simp add: tokens_saved_def compression_ratio_def truediv_def Let_def to_float_def
                round_double_3_5 round_double_2_5 round_double_40)

text \<open>
  C4 as the specification words it, with the exact value of (1 - output / original) * 100,
  fails. With 100 original and 90 output tokens the ratio is the double
  9.999999999999998 (5629499534213119 / 2^49), not 10; with 1 original and 10^309 output
  tokens the property raises \<^verbatim>\<open>OverflowError\<close> and has no value.
\<close>

theorem rounded_ratio_counterexample:
  "compression_ratio \<lparr>output_text = (), output_tokens = 90, original_input_tokens = 100,
                      compression_time = ()\<rparr>
     = Inr (Finite (5629499534213119 / 562949953421312))
   \<and> compression_ratio \<lparr>output_text = (), output_tokens = 90, original_input_tokens = 100,
                        compression_time = ()\<rparr>
     \<noteq> Inr (Finite ((1 - 90 / 100) * 100))
   \<and> compression_ratio \<lparr>output_text = (), output_tokens = 10 ^ 309, original_input_tokens = 1,
                        compression_time = ()\<rparr>
     = Inl OverflowError"
  by (simp add: compression_ratio_def truediv_def Let_def to_float_def
                round_double_9_10 round_double_1_10 round_double_10
                round_double_huge [simplified])

subsection \<open>compress: validation and request body\<close>

text \<open>
  C6. \<open>compress\<close> raises \<open>ValueError\<close> with the message "Aggressiveness must be between
  0.0 and 1.0" exactly when the aggressiveness is not a number of the closed interval
  from 0 to 1; exactly then it has sent no request; the bounds 0 and 1 are accepted.
\<close>

theorem compress_aggressiveness_validation:
  "(fst (compress other send self txt aggr mx mn model)
      = Inl (ValueError (lit ''Aggressiveness must be between 0.0 and 1.0'')))
     = (\<not> (\<exists>x. aggr = Finite x \<and> 0 \<le> x \<and> x \<le> 1))
   \<and> (snd (compress other send self txt aggr mx mn model) = [])
     = (\<not> (\<exists>x. aggr = Finite x \<and> 0 \<le> x \<and> x \<le> 1))
   \<and> fst (compress other send self txt (Finite 0) mx mn model)
       \<noteq> Inl (ValueError (lit ''Aggressiveness must be between 0.0 and 1.0''))
   \<and> fst (compress other send self txt (Finite 1) mx mn model)
       \<noteq> Inl (ValueError (lit ''Aggressiveness must be between 0.0 and 1.0''))"
  by (auto simp: compress_def Let_def float_le_unit on_response_not_ValueError
           split: post_outcome.splits)

text \<open>
  C10. The body of every request \<open>compress\<close> sends is the payload, whose
  \<open>compression_settings\<close> object holds both keys \<open>max_output_tokens\<close> and
  \<open>min_output_tokens\<close>: with the integer when the argument is given, with \<open>None\<close>
  (JSON null) when it is not. An accepted aggressiveness sends exactly one request.
\<close>

theorem compress_body_keeps_token_limits:
  "(\<exists>cs. subscript (payload model txt aggr mx mn) (lit ''compression_settings'') = Inr cs
      \<and> subscript cs (lit ''max_output_tokens'')
          = Inr (case mx of None \<Rightarrow> JNull | Some n \<Rightarrow> JInt n)
      \<and> subscript cs (lit ''min_output_tokens'')
          = Inr (case mn of None \<Rightarrow> JNull | Some n \<Rightarrow> JInt n))
   \<and> (\<forall>req \<in> set (snd (compress other send self txt aggr mx mn model)).
         req_json req = payload model txt aggr mx mn)
   \<and> (float_le (Finite 0) aggr \<and> float_le aggr (Finite 1)
        \<longrightarrow> length (snd (compress other send self txt aggr mx mn model)) = 1)"
  by (simp add: payload_def subscript_def opt_int_def lit_simps compress_def Let_def)

theorem compress_body_keeps_token_limits_witness:
  "(\<exists>cs. subscript (payload DEFAULT_MODEL (lit ''hello'') (Finite 0.5) None (Some 7))
            (lit ''compression_settings'') = Inr cs
      \<and> subscript cs (lit ''max_output_tokens'') = Inr JNull
      \<and> subscript cs (lit ''min_output_tokens'') = Inr (JInt 7))
   \<and> (\<exists>req. snd (compress (\<lambda>v. []) (\<lambda>req. Timeout)
                   \<lparr>client_api_key = lit ''k'', client_timeout = 60\<rparr>
                   (lit ''hello'') (Finite 0.5) None (Some 7) DEFAULT_MODEL) = [req]
         \<and> req_json req = payload DEFAULT_MODEL (lit ''hello'') (Finite 0.5) None (Some 7))"
  using compress_body_keeps_token_limits [of DEFAULT_MODEL "lit ''hello''" "Finite 0.5" None
     "Some 7" "\<lambda>v. []" "\<lambda>req. Timeout" "\<lparr>client_api_key = lit ''k'', client_timeout = 60\<rparr>"]
  by (simp add: compress_def Let_def)

subsection \<open>compress: status codes\<close>

lemma error_msg_spec:
  "error_msg r = (case spec_error_message r of Some m \<Rightarrow> m | None \<Rightarrow> JString (resp_text r))"
  by (auto simp: error_msg_def spec_error_message_def member_def dict_get_def
           split: option.splits json.splits)

text \<open>
  C1, as the code has it. For a response to the compress request: status 401 raises
  \<open>AuthenticationError\<close> "Invalid API key"; 403 raises \<open>AuthenticationError\<close> "API key
  does not have access to this resource"; every other status from 400 to 599 raises
  \<open>APIError\<close> "API error (<status>): <message>", the message being the body's field
  error.message when the body parses as JSON and has it, the body text otherwise; every
  status below 400 or above 599 goes on to the parsing of the success body.
\<close>

theorem compress_status_mapping:
  assumes "float_le (Finite 0) aggr" and "float_le aggr (Finite 1)"
  shows "fst (compress other (\<lambda>req. Response r) self txt aggr mx mn model) =
     (if status_code r = 401 then Inl (AuthenticationError (lit ''Invalid API key''))
      else if status_code r = 403 then
        Inl (AuthenticationError (lit ''API key does not have access to this resource''))
      else if 400 \<le> status_code r \<and> status_code r < 600 then
        Inl (APIError (lit ''API error ('' @ str_int (status_code r) @ lit ''): ''
               @ (case spec_error_message r of
                    Some m \<Rightarrow> py_str other m
                  | None \<Rightarrow> resp_text r)))
      else parse_result r)"
  using assms
  by (simp add: compress_def Let_def on_response_def ok_def error_msg_spec py_str_def
           split: option.splits)

theorem compress_status_mapping_witness:
  "fst (compress (\<lambda>v. []) (\<lambda>req. Response \<lparr>status_code = 500,
          resp_text = lit ''{\"error\":{\"message\":\"overloaded\"}}'',
          resp_json = Some (JObject [(lit ''error'',
                        JObject [(lit ''message'', JString (lit ''overloaded''))])])\<rparr>)
        \<lparr>client_api_key = lit ''k'', client_timeout = 60\<rparr>
        (lit ''hello'') (Finite 0.5) None None DEFAULT_MODEL)
   = Inl (APIError (lit ''API error (500): overloaded''))"
  using compress_status_mapping [of "Finite 0.5" "\<lambda>v. []"
     "\<lparr>status_code = 500,
          resp_text = lit ''{\"error\":{\"message\":\"overloaded\"}}'',
          resp_json = Some (JObject [(lit ''error'',
                        JObject [(lit ''message'', JString (lit ''overloaded''))])])\<rparr>"
     "\<lparr>client_api_key = lit ''k'', client_timeout = 60\<rparr>" "lit ''hello''" None None DEFAULT_MODEL]
  by (simp add: spec_error_message_def member_def py_str_def lit_simps str_int_def dec_nat.simps)

text \<open>
  C1 as stated fails: a status outside 200 to 299 need not raise. A 302 whose body holds
  the four fields is parsed as a success.
\<close>

theorem redirect_status_counterexample:
  "fst (compress (\<lambda>v. []) (\<lambda>req. Response \<lparr>status_code = 302,
          resp_text = lit ''{\"output\":\"Hi\",\"output_tokens\":3,\"original_input_tokens\":8,\"compression_time\":1}'',
          resp_json = Some (JObject [(lit ''output'', JString (lit ''Hi'')),
                                     (lit ''output_tokens'', JInt 3),
                                     (lit ''original_input_tokens'', JInt 8),
                                     (lit ''compression_time'', JInt 1)])\<rparr>)
        \<lparr>client_api_key = lit ''k'', client_timeout = 60\<rparr>
        (lit ''hello'') (Finite 0.5) None None DEFAULT_MODEL)
   = Inr \<lparr>output_text = JString (lit ''Hi''), output_tokens = JInt 3,
          original_input_tokens = JInt 8, compression_time = JInt 1\<rparr>"
  by (simp add: compress_def Let_def on_response_def ok_def parse_result_def subscript_def lit_simps)


subsection \<open>Configuration store\<close>

lemma save_api_key_done:
  assumes "save_api_key v st = (Done, st')"
  shows "\<exists>b f. encode st (strip v) = Some b
           \<and> config_dir st' = DirOK \<and> config_file st' = File f \<and> decode st' = decode st
           \<and> content f = b \<and> mode f = mode_0600
           \<and> can_read f = (superuser st \<or> owner_read mode_0600)"
  using assms
  by (cases "config_dir st"; cases "config_file st")
     (auto simp: save_api_key_def ensure_config_dir_def write_text_def chmod_def
           split: if_splits option.splits prod.splits completion.splits)

text \<open>
  C5, as the code has it. \<open>load_api_key\<close> returns the value of
  \<^verbatim>\<open>TOKENOPTIMIZER_API_KEY\<close>, trimmed, when the variable is set and not empty, whatever
  the config file holds. Otherwise it asks whether the config file exists: when the
  answer is no it returns \<open>None\<close>; when the answer is yes it returns the text read from
  the file, trimmed; and it raises what the question or the reading raises. So a config
  directory without a config file gives \<open>None\<close>, and a readable file whose bytes the
  locale's codec decodes gives the decoded text, line endings translated, trimmed. It
  raises exactly when the variable is unset or empty and the question raises, or the
  answer is yes and the reading raises.
\<close>

theorem load_api_key_resolution:
  "(\<forall>k. env = Some k \<and> k \<noteq> [] \<longrightarrow> load_api_key env st = Inr (Some (strip k)))
   \<and> ((env = None \<or> env = Some []) \<longrightarrow>
        load_api_key env st =
          (case path_exists st of
             Inl e \<Rightarrow> Inl e
           | Inr False \<Rightarrow> Inr None
           | Inr True \<Rightarrow>
               (case read_text st of Inl e \<Rightarrow> Inl e | Inr t \<Rightarrow> Inr (Some (strip t)))))
   \<and> ((env = None \<or> env = Some []) \<and> config_dir st = DirOK \<and> config_file st = Missing
        \<longrightarrow> load_api_key env st = Inr None)
   \<and> (\<forall>f t. (env = None \<or> env = Some []) \<and> config_dir st = DirOK \<and> config_file st = File f
            \<and> can_read f \<and> decode st (content f) = Some t
        \<longrightarrow> load_api_key env st = Inr (Some (strip (universal_newlines t))))
   \<and> ((\<exists>e. load_api_key env st = Inl e)
        = ((env = None \<or> env = Some [])
           \<and> ((\<exists>e. path_exists st = Inl e)
               \<or> (path_exists st = Inr True \<and> (\<exists>e. read_text st = Inl e)))))"
  by (cases "path_exists st"; cases "read_text st")
     (auto simp: load_api_key_def path_exists_def read_text_def
           split: option.splits list.splits bool.splits)

theorem load_api_key_resolution_witness:
  "load_api_key (Some (lit '' env-key ''))
       (example_store\<lparr>config_dir := DirOK,
          config_file := File \<lparr>content = lit ''file-key'', mode = 420, can_read = True,
                               can_write = True, can_chmod = True\<rparr>\<rparr>)
     = Inr (Some (lit ''env-key''))
   \<and> load_api_key None
       (example_store\<lparr>config_dir := DirOK,
          config_file := File \<lparr>content = lit ''file-key'' @ [10], mode = 420, can_read = True,
                               can_write = True, can_chmod = True\<rparr>\<rparr>)
     = Inr (Some (lit ''file-key''))
   \<and> load_api_key None (example_store\<lparr>config_dir := DirOK\<rparr>) = Inr None"
  using load_api_key_resolution [of "Some (lit '' env-key '')"
          "example_store\<lparr>config_dir := DirOK,
             config_file := File \<lparr>content = lit ''file-key'', mode = 420, can_read = True,
                                  can_write = True, can_chmod = True\<rparr>\<rparr>"]
        load_api_key_resolution [of None
          "example_store\<lparr>config_dir := DirOK,
             config_file := File \<lparr>content = lit ''file-key'' @ [10], mode = 420,
                                  can_read = True, can_write = True, can_chmod = True\<rparr>\<rparr>"]
        load_api_key_resolution [of None "example_store\<lparr>config_dir := DirOK\<rparr>"]
  by (simp add: lit_simps strip_def isspace_def example_store_def ascii_decode_def
                path_exists_def read_text_def)

text \<open>
  C5 as the specification words it (\<open>load_api_key\<close> never raises) fails: with the
  variable unset and a directory in the place of the config file, the file exists and
  reading it raises \<^verbatim>\<open>OSError\<close>.
\<close>

theorem unreadable_config_counterexample:
  "load_api_key None (example_store\<lparr>config_dir := DirOK, config_file := Other\<rparr>)
     = Inl OSError"
  by (simp add: load_api_key_def path_exists_def read_text_def example_store_def)

text \<open>
  C7, as the code has it. Let the environment variable be unset and let \<open>v\<close> be a string
  whose trimmed value holds no carriage return and is given back unchanged by the
  locale's codec (encoded to \<open>b\<close>, and \<open>b\<close> decoded to it). Whenever \<open>save_api_key v\<close>
  completes, \<open>load_api_key\<close> then returns exactly \<open>v\<close> trimmed, and the config file is a
  regular file that holds \<open>b\<close> with the permission bits 0600.
\<close>

theorem save_then_load:
  assumes "save_api_key v st = (Done, st')" and "13 \<notin> set (strip v)"
      and "encode st (strip v) = Some b" and "decode st b = Some (strip v)"
  shows "load_api_key None st' = Inr (Some (strip v))
         \<and> (\<exists>f. config_file st' = File f \<and> content f = b \<and> mode f = mode_0600)"
proof -
  from save_api_key_done [OF assms(1)] obtain f where
    st': "config_dir st' = DirOK" "config_file st' = File f" "decode st' = decode st"
    and f: "content f = b" "mode f = mode_0600"
           "can_read f = (superuser st \<or> owner_read mode_0600)"
    using assms(3) by auto
  have r: "can_read f" using f(3) by (simp add: owner_read_def mode_0600_def)
  show ?thesis
    using st' f r assms(2,4)
    by (simp add: load_api_key_def path_exists_def read_text_def
                  universal_newlines_no_cr strip_idem)
qed

theorem save_then_load_witness:
  "save_api_key (lit '' abc123 '') example_store
     = (Done, example_store\<lparr>config_dir := DirOK,
                config_file := File \<lparr>content = lit ''abc123'', mode = mode_0600,
                                     can_read = True, can_write = True, can_chmod = True\<rparr>\<rparr>)
   \<and> load_api_key None
        (example_store\<lparr>config_dir := DirOK,
           config_file := File \<lparr>content = lit ''abc123'', mode = mode_0600,
                                can_read = True, can_write = True, can_chmod = True\<rparr>\<rparr>)
     = Inr (Some (lit ''abc123''))
   \<and> mode_0600 = 384"
proof -
  have s: "strip (lit '' abc123 '') = lit ''abc123''"
    by (simp add: lit_simps strip_def isspace_def)
  have h: "save_api_key (lit '' abc123 '') example_store
     = (Done, example_store\<lparr>config_dir := DirOK,
                config_file := File \<lparr>content = lit ''abc123'', mode = mode_0600,
                                     can_read = True, can_write = True, can_chmod = True\<rparr>\<rparr>)"
    unfolding save_api_key_def s
    by (simp add: ensure_config_dir_def write_text_def chmod_def example_store_def
                  ascii_encode_def lit_simps owner_read_def owner_write_def mode_0600_def)
  have c: "13 \<notin> set (strip (lit '' abc123 ''))"
    unfolding s by (simp add: lit_simps)
  have e: "encode example_store (strip (lit '' abc123 '')) = Some (lit ''abc123'')"
    unfolding s by (simp add: example_store_def ascii_encode_def lit_simps)
  have d: "decode example_store (lit ''abc123'') = Some (strip (lit '' abc123 ''))"
    unfolding s by (simp add: example_store_def ascii_decode_def lit_simps)
  have m: "mode_0600 = 384" by (simp add: mode_0600_def)
  from save_then_load [OF h c e d] h m show ?thesis unfolding s by simp
qed

text \<open>
  C7 as the specification words it (for every string) fails: the key made of
  \<^verbatim>\<open>a\<close>, a carriage return and \<^verbatim>\<open>b\<close> is its own trimmed value, it is saved, and it is
  loaded with a line feed in the place of the carriage return, since reading in text mode
  translates it.
\<close>

theorem carriage_return_counterexample:
  "strip [97, 13, 98] = [97, 13, 98]
   \<and> (case save_api_key [97, 13, 98] example_store of
         (Raised e, st) \<Rightarrow> Inl e
       | (Done, st) \<Rightarrow> load_api_key None st) = Inr (Some [97, 10, 98])"
  by (simp add: save_api_key_def ensure_config_dir_def write_text_def chmod_def
                load_api_key_def path_exists_def read_text_def example_store_def
                ascii_encode_def ascii_decode_def owner_read_def owner_write_def mode_0600_def
                strip_def isspace_def)

subsection \<open>Command line\<close>








text \<open>
  C3 does not hold of the code: \<^verbatim>\<open>tokenoptimizer auth set --key "   "\<close>. The key of the
  command line is tested for emptiness before it is trimmed (the line read at the prompt
  is trimmed first), so the run does not fail: \<open>save_api_key\<close> trims the key and writes an
  empty config file, the run reports the path on standard error and returns 0.
\<close>

theorem auth_set_blank_key_saved:
  "main example_world (Auth (Some (AuthSet (Some (lit ''   '')))))
     = (\<lparr>stdout = [],
         stderr = lit ''API key saved to /home/u/.config/tokenoptimizer/config'' @ [10],
         disk = example_store\<lparr>config_dir := DirOK,
                  config_file := File \<lparr>content = [], mode = mode_0600, can_read = True,
                                       can_write = True, can_chmod = True\<rparr>\<rparr>\<rparr>,
        Returned 0)"
  by (simp add: main_def cmd_auth_def save_api_key_def ensure_config_dir_def write_text_def
                chmod_def example_world_def example_store_def ascii_encode_def
                owner_read_def owner_write_def mode_0600_def strip_def isspace_def
                print_stderr_def get_config_path_def CONFIG_FILE_def lit_simps)

text \<open>
  C8. For every credential that \<^verbatim>\<open>auth show\<close> displays (the one \<open>load_api_key\<close> returns, not
  empty): the line \<^verbatim>\<open>API key: \<close> shows, for a credential of more than 8 characters, its
  first 4 characters, then its length minus 8 asterisks, then its last 4 characters; for
  a credential of 8 characters or fewer, one asterisk for each character. The line
  \<^verbatim>\<open>Source: \<close> follows; both lines are on standard output when the run returns 0.
\<close>

theorem auth_show_masks_key:
  assumes "load_api_key (environ_key w) (disk p) = Inr (Some k)" and "k \<noteq> []"
  shows "cmd_auth w AuthShow p =
           returning 0
             (print_lines w
                [lit ''API key: ''
                 @ (if 8 < length k
                    then take 4 k @ replicate (length k - 8) 42 @ drop (length k - 4) k
                    else replicate (length k) 42),
                 lit ''Source: ''
                 @ (if environ_key w \<noteq> None then lit ''environment''
                    else lit ''config file'')] p)
         \<and> (snd (cmd_auth w AuthShow p) = Returned 0 \<longrightarrow>
              stdout (fst (cmd_auth w AuthShow p)) =
                stdout p @ lit ''API key: ''
                @ (if 8 < length k
                   then take 4 k @ replicate (length k - 8) 42 @ drop (length k - 4) k
                   else replicate (length k) 42)
                @ [10] @ lit ''Source: ''
                @ (if environ_key w \<noteq> None then lit ''environment'' else lit ''config file'')
                @ [10])"
proof -
  obtain c cs where k: "k = c # cs" using assms(2) by (cases k) auto
  have a: "cmd_auth w AuthShow p =
           returning 0
             (print_lines w
                [lit ''API key: '' @ mask k,
                 lit ''Source: ''
                 @ (if environ_key w \<noteq> None then lit ''environment''
                    else lit ''config file'')] p)"
    using assms(1) by (simp add: cmd_auth_def k)
  show ?thesis
    unfolding a mask_eq
    by (auto simp: returning_def print_stdout_def split: if_splits)
qed

theorem auth_show_masks_key_witness:
  "main (example_world\<lparr>environ_key := Some (lit ''sk-1234567890abcd'')\<rparr>) (Auth (Some AuthShow))
     = (\<lparr>stdout = lit ''API key: sk-1*********abcd'' @ [10]
                  @ lit ''Source: environment'' @ [10],
         stderr = [], disk = example_store\<rparr>, Returned 0)
   \<and> main (example_world\<lparr>environ_key := Some (lit ''12345678'')\<rparr>) (Auth (Some AuthShow))
     = (\<lparr>stdout = lit ''API key: ********'' @ [10] @ lit ''Source: environment'' @ [10],
         stderr = [], disk = example_store\<rparr>, Returned 0)"
proof -
  define w1 where "w1 = example_world\<lparr>environ_key := Some (lit ''sk-1234567890abcd'')\<rparr>"
  define w2 where "w2 = example_world\<lparr>environ_key := Some (lit ''12345678'')\<rparr>"
  define p where "p = \<lparr>stdout = [], stderr = [], disk = example_store\<rparr>"
  have l1: "load_api_key (environ_key w1) (disk p) = Inr (Some (lit ''sk-1234567890abcd''))"
    by (simp add: w1_def load_api_key_def lit_simps strip_def isspace_def)
  have l2: "load_api_key (environ_key w2) (disk p) = Inr (Some (lit ''12345678''))"
    by (simp add: w2_def load_api_key_def lit_simps strip_def isspace_def)
  have n1: "lit ''sk-1234567890abcd'' \<noteq> []" and n2: "lit ''12345678'' \<noteq> []"
    by (simp_all add: lit_simps)
  have m1: "main w1 (Auth (Some AuthShow)) = cmd_auth w1 AuthShow p"
    and m2: "main w2 (Auth (Some AuthShow)) = cmd_auth w2 AuthShow p"
    by (simp_all add: main_def w1_def w2_def p_def example_world_def)
  from auth_show_masks_key [OF l1 n1] auth_show_masks_key [OF l2 n2]
  show ?thesis
    unfolding w1_def [symmetric] w2_def [symmetric] m1 m2
    by (simp add: w1_def w2_def p_def example_world_def returning_def print_stdout_def
                  lit_simps)
qed

text \<open>
  C9. When \<^verbatim>\<open>TOKENOPTIMIZER_API_KEY\<close> is set to a string that is not empty and holds only
  whitespace, \<open>load_api_key\<close> returns the empty string whatever the config store holds
  (neither \<open>None\<close> nor the key of the config file); \<open>cmd_optimize\<close> then fails with "No
  API key configured. ..." and the run exits with the code 1, and \<^verbatim>\<open>auth show\<close> prints
  the three lines of a missing key.
\<close>

theorem whitespace_environment_key:
  assumes "k \<noteq> []" and "\<forall>c\<in>set k. isspace c" and "environ_key w = Some k"
  shows "load_api_key (environ_key w) st = Inr (Some [])
       \<and> cmd_optimize w args p =
           error (lit ''No API key configured. Run '' @ [39] @ lit ''tokenoptimizer auth set''
                  @ [39] @ lit '' or set '' @ ENV_VAR_NAME) 1 p
       \<and> main w (Optimize args) =
           (\<lparr>stdout = [],
             stderr = lit ''error: No API key configured. Run '' @ [39]
                      @ lit ''tokenoptimizer auth set'' @ [39] @ lit '' or set ''
                      @ ENV_VAR_NAME @ [10],
             disk = files w\<rparr>, SysExit 1)
       \<and> cmd_auth w AuthShow p =
           returning 0
             (print_lines w
                [lit ''No API key configured'',
                 lit ''Set one with: tokenoptimizer auth set'',
                 lit ''Or set '' @ ENV_VAR_NAME @ lit '' environment variable''] p)"
proof -
  obtain c cs where k: "k = c # cs" using assms(1) by (cases k) auto
  have s: "strip k = []" using assms(2) by (rule strip_all_space)
  have l: "\<And>st. load_api_key (environ_key w) st = Inr (Some [])"
    using s by (simp add: load_api_key_def assms(3) k)
  show ?thesis
    by (simp add: l cmd_optimize_def cmd_auth_def main_def error_eq lit_simps)
qed

theorem whitespace_environment_key_witness:
  "load_api_key (Some (lit ''  ''))
      (example_store\<lparr>config_dir := DirOK,
         config_file := File \<lparr>content = lit ''sk-valid-key'', mode = mode_0600,
                              can_read = True, can_write = True, can_chmod = True\<rparr>\<rparr>)
     = Inr (Some [])
   \<and> snd (main (example_world\<lparr>environ_key := Some (lit ''  '')\<rparr>) (Optimize default_args))
     = SysExit 1"
  using whitespace_environment_key [of "lit ''  ''"
          "example_world\<lparr>environ_key := Some (lit ''  '')\<rparr>"
          "example_store\<lparr>config_dir := DirOK,
             config_file := File \<lparr>content = lit ''sk-valid-key'', mode = mode_0600,
                                  can_read = True, can_write = True, can_chmod = True\<rparr>\<rparr>"
          default_args]
  by (simp add: lit_simps isspace_def)

end
